theory Spec2Isabelle
  imports Complex_Main
begin

section \<open>Numbers\<close>

text \<open>
  Every number of \<^verbatim>\<open>obstacle_primitives.py\<close> is a Python float: a coordinate, an
  elevation bound (\<^verbatim>\<open>numpy.inf\<close> and \<^verbatim>\<open>-numpy.inf\<close> are the defaults of a prism), a
  component of a vector (\<^verbatim>\<open>numpy.ones((1, 3)) * numpy.inf\<close> when a shape has no hole).
  A float is modelled by its value: not-a-number, one of the two infinities, or a real.
  Rounding is left out, the special values are not: comparisons with not-a-number are
  false, and a division by zero is a value, not an exception (numpy warns and goes on).
\<close>

datatype fnum = NaN | NInf | Fin real | PInf

text \<open>\<^verbatim>\<open>a < b\<close> and \<^verbatim>\<open>a <= b\<close> on floats.\<close>

fun flt :: "fnum \<Rightarrow> fnum \<Rightarrow> bool" where
  "flt NaN b = False"
| "flt a NaN = False"
| "flt (Fin a) (Fin b) = (a < b)"
| "flt a NInf = False"
| "flt NInf b = True"
| "flt PInf b = False"
| "flt (Fin a) PInf = True"

fun fle :: "fnum \<Rightarrow> fnum \<Rightarrow> bool" where
  "fle NaN b = False"
| "fle a NaN = False"
| "fle (Fin a) (Fin b) = (a \<le> b)"
| "fle NInf b = True"
| "fle a PInf = True"
| "fle a NInf = False"
| "fle PInf b = False"

text \<open>\<^verbatim>\<open>a > b\<close> and \<^verbatim>\<open>a >= b\<close> compare the other way round.\<close>

definition fgt :: "fnum \<Rightarrow> fnum \<Rightarrow> bool" where
  "fgt a b = flt b a"

definition fge :: "fnum \<Rightarrow> fnum \<Rightarrow> bool" where
  "fge a b = fle b a"

text \<open>\<^verbatim>\<open>a + b\<close> and \<^verbatim>\<open>a - b\<close>: opposite infinities give not-a-number.\<close>

fun fneg :: "fnum \<Rightarrow> fnum" where
  "fneg NaN = NaN"
| "fneg NInf = PInf"
| "fneg PInf = NInf"
| "fneg (Fin a) = Fin (- a)"

fun fadd :: "fnum \<Rightarrow> fnum \<Rightarrow> fnum" where
  "fadd NaN b = NaN"
| "fadd a NaN = NaN"
| "fadd (Fin a) (Fin b) = Fin (a + b)"
| "fadd PInf NInf = NaN"
| "fadd NInf PInf = NaN"
| "fadd PInf b = PInf"
| "fadd NInf b = NInf"
| "fadd (Fin a) b = b"

definition fsub :: "fnum \<Rightarrow> fnum \<Rightarrow> fnum" where
  "fsub a b = fadd a (fneg b)"

text \<open>
  \<^verbatim>\<open>a / b\<close> on numpy floats. The only zero divisor of the source is
  \<^verbatim>\<open>numpy.diff(s_z)\<close>, a difference of two equal floats, which is positive zero: a
  positive numerator gives \<open>+inf\<close>, a negative one \<open>-inf\<close>, zero gives not-a-number.
\<close>

fun fdiv :: "fnum \<Rightarrow> fnum \<Rightarrow> fnum" where
  "fdiv NaN b = NaN"
| "fdiv a NaN = NaN"
| "fdiv (Fin a) (Fin b) =
     (if b \<noteq> 0 then Fin (a / b)
      else if 0 < a then PInf else if a < 0 then NInf else NaN)"
| "fdiv (Fin a) b = Fin 0"
| "fdiv PInf (Fin b) = (if 0 \<le> b then PInf else NInf)"
| "fdiv NInf (Fin b) = (if 0 \<le> b then NInf else PInf)"
| "fdiv a b = NaN"

text \<open>
  \<^verbatim>\<open>numpy.maximum\<close>, \<^verbatim>\<open>numpy.minimum\<close> (not-a-number wins) and
  \<^verbatim>\<open>numpy.clip(a, a_min, a_max)\<close>, which is \<^verbatim>\<open>minimum(a_max, maximum(a, a_min))\<close>.
\<close>

definition fmaximum :: "fnum \<Rightarrow> fnum \<Rightarrow> fnum" where
  "fmaximum a b = (if a = NaN \<or> b = NaN then NaN else if flt a b then b else a)"

definition fminimum :: "fnum \<Rightarrow> fnum \<Rightarrow> fnum" where
  "fminimum a b = (if a = NaN \<or> b = NaN then NaN else if flt b a then b else a)"

definition clip :: "fnum \<Rightarrow> fnum \<Rightarrow> fnum \<Rightarrow> fnum" where
  "clip a a_min a_max = fminimum a_max (fmaximum a a_min)"

text \<open>Python's builtin \<^verbatim>\<open>min(a, b)\<close>: the first argument unless the second is smaller.\<close>

definition py_min :: "fnum \<Rightarrow> fnum \<Rightarrow> fnum" where
  "py_min a b = (if flt b a then b else a)"

section \<open>Geometry values\<close>

text \<open>
  A shapely \<^verbatim>\<open>Point\<close> with three coordinates, in the north, east, down frame. The
  point queries document their argument as a point with three elements; a numpy array is
  turned into a \<^verbatim>\<open>Point\<close> on entry, so the model starts from the \<^verbatim>\<open>Point\<close>.
\<close>

record point =
  north :: fnum
  east :: fnum
  down :: fnum

text \<open>A point with finite coordinates.\<close>

definition pt :: "real \<Rightarrow> real \<Rightarrow> real \<Rightarrow> point" where
  "pt n e d = \<lparr>north = Fin n, east = Fin e, down = Fin d\<rparr>"

text \<open>The \<^verbatim>\<open>1x3\<close> numpy array a nearest-boundary query returns.\<close>

record vec =
  vn :: fnum
  ve :: fnum
  vd :: fnum

text \<open>\<^verbatim>\<open>numpy.zeros((1,3))\<close> and \<^verbatim>\<open>numpy.ones((1, 3)) * numpy.inf\<close>.\<close>

definition zeros :: vec where
  "zeros = \<lparr>vn = Fin 0, ve = Fin 0, vd = Fin 0\<rparr>"

definition inf_vec :: vec where
  "inf_vec = \<lparr>vn = PInf, ve = PInf, vd = PInf\<rparr>"

text \<open>
  \<^verbatim>\<open>numpy.linalg.norm\<close> of such an array: the root of the sum of the squares, infinite
  when a component is, and not-a-number when one is.
\<close>

fun the_real :: "fnum \<Rightarrow> real" where
  "the_real (Fin a) = a"
| "the_real a = 0"

definition is_inf :: "fnum \<Rightarrow> bool" where
  "is_inf a = (a = PInf \<or> a = NInf)"

definition norm_vec :: "vec \<Rightarrow> fnum" where
  "norm_vec v =
     (if vn v = NaN \<or> ve v = NaN \<or> vd v = NaN then NaN
      else if is_inf (vn v) \<or> is_inf (ve v) \<or> is_inf (vd v) then PInf
      else Fin (sqrt ((the_real (vn v))\<^sup>2 + (the_real (ve v))\<^sup>2 + (the_real (vd v))\<^sup>2)))"

text \<open>
  A ring is the closed sequence of the lateral coordinates of a boundary curve; a shapely
  \<^verbatim>\<open>Polygon\<close> has one exterior ring and its holes (\<^verbatim>\<open>interiors\<close>) in declaration order.
\<close>

type_synonym ring = "(real \<times> real) list"

record polygon =
  exterior :: ring
  interiors :: "ring list"

text \<open>
  A shapely \<^verbatim>\<open>LineString\<close>, with or without elevations (\<^verbatim>\<open>has_z\<close>); the path queries
  turn a numpy array into one on entry.
\<close>

datatype linestring = LineString2D "(fnum \<times> fnum) list" | LineString3D "point list"

fun has_z :: "linestring \<Rightarrow> bool" where
  "has_z (LineString2D cs) = False"
| "has_z (LineString3D ps) = True"

text \<open>
  What \<^verbatim>\<open>path.intersection(ring)\<close> returns: a \<^verbatim>\<open>Point\<close>, a \<^verbatim>\<open>LineString\<close> (a
  collinear overlap, or an empty one), or a collection that iterates over its parts
  (\<^verbatim>\<open>MultiPoint\<close>, \<^verbatim>\<open>MultiLineString\<close>, \<^verbatim>\<open>GeometryCollection\<close>, empty or not).
\<close>

datatype geom = GPoint point | GLineString "point list" | GMulti "geom list"

fun is_empty :: "geom \<Rightarrow> bool" where
  "is_empty (GPoint p) = False"
| "is_empty (GLineString cs) = (cs = [])"
| "is_empty (GMulti gs) = (gs = [])"

section \<open>Errors\<close>

text \<open>The exceptions of the model, as values.\<close>

datatype pyerr =
  KeyError string
  | NameError string
  | AttributeError string
  | AssertionError
  | ValueError
  | IndexError
  | TypeError
  | DimensionError
  | OverflowError
  | ArgumentError

section \<open>Collaborators\<close>

text \<open>
  The shapes delegate every lateral computation: to shapely, and to
  \<^verbatim>\<open>geometry.lines.point_line_distance\<close>. Neither is part of the sources at hand, so each
  query takes the operations it calls as a parameter and every theorem holds for all of
  them. An operation answers every call it is modelled for; \<^verbatim>\<open>shapely.ops.split\<close>, which
  raises on some paths (one of zero lateral length), answers with an error or with the
  pieces. The other exceptions of the model are the ones the source raises by itself, or
  by the way it calls an operation. The operations on points:
  \<^item> \<open>within_pt p poly\<close> is \<^verbatim>\<open>p.within(poly)\<close>, which looks at the lateral position;
  \<^item> \<open>point_line_distance p ring\<close> is the first component of the result of
    \<^verbatim>\<open>geometry.lines.point_line_distance(p, ring)\<close>, the vector from the point to the ring
    (the \<^verbatim>\<open>1x3\<close> array of the docstrings, which \<^verbatim>\<open>vector[0,2] = dz\<close> can index).
\<close>

record point_ops =
  within_pt :: "point \<Rightarrow> polygon \<Rightarrow> bool"
  point_line_distance :: "point \<Rightarrow> ring \<Rightarrow> vec"

text \<open>
  The operations on paths:
  \<^item> \<open>within_ls s poly\<close> and \<open>intersects_ls s poly\<close> are \<^verbatim>\<open>s.within(poly)\<close> and
    \<^verbatim>\<open>s.intersects(poly)\<close>;
  \<^item> \<open>intersection_ls s ring\<close> is \<^verbatim>\<open>s.intersection(ring)\<close>;
  \<^item> \<open>project s g\<close> is \<^verbatim>\<open>s.project(g)\<close>, the distance along \<open>s\<close> nearest to \<open>g\<close>;
  \<^item> \<open>interpolate s d normalized\<close> is \<^verbatim>\<open>s.interpolate(d, normalized=normalized)\<close>;
  \<^item> \<open>split_at_vertices s\<close> is \<^verbatim>\<open>shapely.ops.split(s, vertices)\<close> for the vertices
    \<^verbatim>\<open>s.coords[1:]\<close>: the pieces of the path, each a line by its coordinates. A piece
    has two coordinates between two different consecutive vertices, and more where a
    vertex is repeated.
\<close>

record path_ops =
  within_ls :: "linestring \<Rightarrow> polygon \<Rightarrow> bool"
  intersects_ls :: "linestring \<Rightarrow> polygon \<Rightarrow> bool"
  intersection_ls :: "linestring \<Rightarrow> ring \<Rightarrow> geom"
  project :: "linestring \<Rightarrow> geom \<Rightarrow> fnum"
  interpolate :: "linestring \<Rightarrow> fnum \<Rightarrow> bool \<Rightarrow> point"
  split_at_vertices :: "linestring \<Rightarrow> pyerr + point list list"

section \<open>ShapePrimitive\<close>

text \<open>
  The fields \<^verbatim>\<open>_shape\<close>, \<^verbatim>\<open>_id\<close> and \<^verbatim>\<open>_epsilon\<close> of a \<^verbatim>\<open>ShapePrimitive\<close>.
  \<^verbatim>\<open>PrismaticShape\<close> is a subclass with two more fields, \<^verbatim>\<open>_z0\<close> (the down position of
  the base, the spec's bottom) and \<^verbatim>\<open>_zt\<close> (of the top): a record extension, so that an
  inherited method applies to both.
\<close>

record shape_primitive =
  shape :: polygon
  shape_id :: string
  epsilon :: fnum

record prismatic_shape = shape_primitive +
  z0 :: fnum
  zt :: fnum

text \<open>\<^verbatim>\<open>ShapePrimitive.is_point_inside\<close>: \<^verbatim>\<open>point.within(self._shape)\<close>.\<close>

definition is_point_inside :: "point_ops \<Rightarrow> 'a shape_primitive_scheme \<Rightarrow> point \<Rightarrow> bool" where
  "is_point_inside po self p = within_pt po p (shape self)"

text \<open>
  \<^verbatim>\<open>PrismaticShape.is_point_inside\<close>:
  \<^verbatim>\<open>is_inside and (point.z > self._zt) and (point.z < self._z0)\<close>.
\<close>

definition prism_is_point_inside :: "point_ops \<Rightarrow> prismatic_shape \<Rightarrow> point \<Rightarrow> bool" where
  "prism_is_point_inside po self p =
     (let is_inside = is_point_inside po self p
      in is_inside \<and> fgt (down p) (zt self) \<and> flt (down p) (z0 self))"

text \<open>
  \<^verbatim>\<open>ShapePrimitive.nearest_exterior\<close>:
  \<^verbatim>\<open>geometry.lines.point_line_distance(point, self._shape.exterior)[0]\<close>.
\<close>

definition nearest_exterior :: "point_ops \<Rightarrow> 'a shape_primitive_scheme \<Rightarrow> point \<Rightarrow> vec" where
  "nearest_exterior po self p = point_line_distance po p (exterior (shape self))"

text \<open>
  \<^verbatim>\<open>ShapePrimitive.nearest_hole\<close>: the loop over \<^verbatim>\<open>self._shape.interiors\<close>, which starts
  from the infinite vector and keeps a hole's vector when its norm is strictly smaller.
\<close>

fun nearest_hole_loop :: "point_ops \<Rightarrow> point \<Rightarrow> vec \<Rightarrow> ring list \<Rightarrow> vec" where
  "nearest_hole_loop po p vector_to_boundary [] = vector_to_boundary"
| "nearest_hole_loop po p vector_to_boundary (hole # holes) =
     (let dist = point_line_distance po p hole
      in nearest_hole_loop po p
           (if flt (norm_vec dist) (norm_vec vector_to_boundary) then dist
            else vector_to_boundary) holes)"

definition nearest_hole :: "point_ops \<Rightarrow> 'a shape_primitive_scheme \<Rightarrow> point \<Rightarrow> vec" where
  "nearest_hole po self p = nearest_hole_loop po p inf_vec (interiors (shape self))"

text \<open>
  \<^verbatim>\<open>ShapePrimitive.nearest_boundary\<close> calls \<^verbatim>\<open>self.nearest_exterior\<close> and
  \<^verbatim>\<open>self.nearest_hole\<close>, which are the methods of the object's own class: the body takes
  their two results, and each class supplies its own.
\<close>

definition nearest_boundary_body :: "vec \<Rightarrow> vec \<Rightarrow> vec" where
  "nearest_boundary_body r_exterior r_hole =
     (if flt (norm_vec r_hole) (norm_vec r_exterior) then r_hole else r_exterior)"

definition nearest_boundary :: "point_ops \<Rightarrow> shape_primitive \<Rightarrow> point \<Rightarrow> vec" where
  "nearest_boundary po self p =
     nearest_boundary_body (nearest_exterior po self p) (nearest_hole po self p)"

text \<open>
  \<^verbatim>\<open>PrismaticShape._z_difference\<close>:
  \<^verbatim>\<open>dz = numpy.clip(point.z, self._zt, self._z0) - point.z; vector[0,2] = dz\<close>.
\<close>

definition z_difference :: "prismatic_shape \<Rightarrow> point \<Rightarrow> vec \<Rightarrow> vec" where
  "z_difference self p vector =
     (let dz = fsub (clip (down p) (zt self) (z0 self)) (down p)
      in vector\<lparr>vd := dz\<rparr>)"

text \<open>
  \<^verbatim>\<open>PrismaticShape.nearest_exterior\<close>, \<^verbatim>\<open>nearest_hole\<close> and \<^verbatim>\<open>nearest_boundary\<close>. Only the
  first one tests \<^verbatim>\<open>point.within(self._shape)\<close>; the last one runs the inherited body on
  the two prismatic results and sets the down component once more.
\<close>

definition prism_nearest_exterior :: "point_ops \<Rightarrow> prismatic_shape \<Rightarrow> point \<Rightarrow> vec" where
  "prism_nearest_exterior po self p =
     (let vector_to_boundary =
        (if within_pt po p (shape self) then zeros else nearest_exterior po self p)
      in z_difference self p vector_to_boundary)"

definition prism_nearest_hole :: "point_ops \<Rightarrow> prismatic_shape \<Rightarrow> point \<Rightarrow> vec" where
  "prism_nearest_hole po self p = z_difference self p (nearest_hole po self p)"

definition prism_nearest_boundary :: "point_ops \<Rightarrow> prismatic_shape \<Rightarrow> point \<Rightarrow> vec" where
  "prism_nearest_boundary po self p =
     z_difference self p
       (nearest_boundary_body (prism_nearest_exterior po self p) (prism_nearest_hole po self p))"

section \<open>Path queries of ShapePrimitive\<close>

text \<open>\<^verbatim>\<open>ShapePrimitive.is_path_inside\<close>: \<^verbatim>\<open>path.within(self._shape)\<close>.\<close>

definition is_path_inside :: "path_ops \<Rightarrow> 'a shape_primitive_scheme \<Rightarrow> linestring \<Rightarrow> bool" where
  "is_path_inside pa self path = within_ls pa path (shape self)"

text \<open>
  Reading a name. A name that a function never assigns is looked up among the names of
  the module, which are its imports, \<^verbatim>\<open>_numpy_to_linestring\<close> and the two classes (no
  builtin is called \<^verbatim>\<open>intersections\<close>); a name bound nowhere raises \<^verbatim>\<open>NameError\<close>.
  The objects that matter to an \<^verbatim>\<open>isinstance\<close> test are the geometries.
\<close>

datatype pyobj = Geometry geom | Line linestring | Object

definition module_names :: "string list" where
  "module_names = [''hashlib'', ''numpy'', ''pdb'', ''shapely'', ''geometry'',
     ''_numpy_to_linestring'', ''ShapePrimitive'', ''PrismaticShape'']"

definition load_name :: "(string \<times> pyobj) list \<Rightarrow> string \<Rightarrow> pyerr + pyobj" where
  "load_name local_names name =
     (case map_of local_names name of
        Some v \<Rightarrow> Inr v
      | None \<Rightarrow> if name \<in> set module_names then Inr Object else Inl (NameError name))"

fun is_LineString :: "pyobj \<Rightarrow> bool" where
  "is_LineString (Geometry (GLineString cs)) = True"
| "is_LineString (Line l) = True"
| "is_LineString v = False"

text \<open>
  \<^verbatim>\<open>ShapePrimitive.exterior_intersections\<close>. The result of \<^verbatim>\<open>path.intersection\<close> is
  bound to \<^verbatim>\<open>intersection\<close>; the first test reads \<^verbatim>\<open>intersections\<close>. After it, a
  \<^verbatim>\<open>Point\<close> becomes a tuple of one, and \<^verbatim>\<open>tuple(intersection)\<close> iterates a collection
  (a \<^verbatim>\<open>LineString\<close> does not iterate).
\<close>

definition exterior_intersections ::
  "path_ops \<Rightarrow> 'a shape_primitive_scheme \<Rightarrow> linestring \<Rightarrow> pyerr + geom list" where
  "exterior_intersections pa self path =
     (let intersection = intersection_ls pa path (exterior (shape self))
      in case load_name [(''self'', Object), (''path'', Line path),
                         (''intersection'', Geometry intersection)] ''intersections'' of
           Inl err \<Rightarrow> Inl err
         | Inr intersections \<Rightarrow>
             if is_LineString intersections \<and> is_empty intersection then Inr []
             else (case intersection of
                     GPoint p \<Rightarrow> Inr [GPoint p]
                   | GLineString cs \<Rightarrow> Inl TypeError
                   | GMulti gs \<Rightarrow> Inr gs))"

text \<open>
  \<^verbatim>\<open>ShapePrimitive.hole_intersections\<close>, one tuple for each hole: a \<^verbatim>\<open>Point\<close> becomes a
  tuple of one, a \<^verbatim>\<open>LineString\<close> the tuple of its first vertex
  (\<^verbatim>\<open>numpy.array(this_hole_intersections)[0]\<close>, which has no first row when the line is
  empty), a collection the tuple of its parts.
\<close>

fun hole_entry :: "geom \<Rightarrow> pyerr + geom list" where
  "hole_entry (GPoint p) = Inr [GPoint p]"
| "hole_entry (GLineString []) = Inl IndexError"
| "hole_entry (GLineString (c # cs)) = Inr [GPoint c]"
| "hole_entry (GMulti gs) = Inr gs"

fun hole_intersections_loop ::
  "path_ops \<Rightarrow> linestring \<Rightarrow> geom list list \<Rightarrow> ring list \<Rightarrow> pyerr + geom list list" where
  "hole_intersections_loop pa path intersections [] = Inr intersections"
| "hole_intersections_loop pa path intersections (hole # holes) =
     (case hole_entry (intersection_ls pa path hole) of
        Inl err \<Rightarrow> Inl err
      | Inr this_hole_intersections \<Rightarrow>
          hole_intersections_loop pa path (intersections @ [this_hole_intersections]) holes)"

definition hole_intersections ::
  "path_ops \<Rightarrow> 'a shape_primitive_scheme \<Rightarrow> linestring \<Rightarrow> pyerr + geom list list" where
  "hole_intersections pa self path = hole_intersections_loop pa path [] (interiors (shape self))"

text \<open>
  Reading an attribute of a \<^verbatim>\<open>ShapePrimitive\<close>: its three fields, and the methods and
  the property of the class. The two methods that take a path and return a tuple are told
  apart, since \<^verbatim>\<open>intersections\<close> iterates what they return; calling another attribute
  with a path and iterating the result is an error in each case but \<^verbatim>\<open>intersections\<close>
  itself, which no call site names.
\<close>

datatype attribute = Exterior_intersections | Hole_intersections | Other_attribute

definition shape_primitive_attributes :: "string list" where
  "shape_primitive_attributes = [''_shape'', ''_id'', ''_epsilon'', ''__init__'',
     ''define_from_dictionary'', ''id'', ''is_point_inside'', ''is_path_inside'',
     ''nearest_exterior'', ''nearest_hole'', ''nearest_boundary'',
     ''exterior_intersections'', ''hole_intersections'', ''intersections'']"

definition getattr :: "string \<Rightarrow> pyerr + attribute" where
  "getattr name =
     (if name = ''exterior_intersections'' then Inr Exterior_intersections
      else if name = ''hole_intersections'' then Inr Hole_intersections
      else if name \<in> set shape_primitive_attributes then Inr Other_attribute
      else Inl (AttributeError name))"

text \<open>
  An entry of the tuple \<^verbatim>\<open>intersections\<close> builds: an element of the exterior tuple, or
  one hole's whole tuple (\<^verbatim>\<open>list(i for i in self.hole_intersections(path))\<close> keeps the
  tuples as they are).
\<close>

datatype entry = Item geom | Items "geom list"

fun call_with_path ::
  "path_ops \<Rightarrow> shape_primitive \<Rightarrow> attribute \<Rightarrow> linestring \<Rightarrow> pyerr + entry list" where
  "call_with_path pa self Exterior_intersections path =
     (case exterior_intersections pa self path of
        Inl err \<Rightarrow> Inl err | Inr points \<Rightarrow> Inr (map Item points))"
| "call_with_path pa self Hole_intersections path =
     (case hole_intersections pa self path of
        Inl err \<Rightarrow> Inl err | Inr tuples \<Rightarrow> Inr (map Items tuples))"
| "call_with_path pa self Other_attribute path = Inl TypeError"

text \<open>
  \<^verbatim>\<open>ShapePrimitive.intersections\<close>:
  \<^verbatim>\<open>intersections = list(self.exterior_intersection(path))\<close>, then
  \<^verbatim>\<open>intersections += list(i for i in self.hole_intersection(path))\<close>.
\<close>

definition intersections :: "path_ops \<Rightarrow> shape_primitive \<Rightarrow> linestring \<Rightarrow> pyerr + entry list" where
  "intersections pa self path =
     (case getattr ''exterior_intersection'' of
        Inl err \<Rightarrow> Inl err
      | Inr exterior_method \<Rightarrow>
          (case call_with_path pa self exterior_method path of
             Inl err \<Rightarrow> Inl err
           | Inr exterior_entries \<Rightarrow>
               (case getattr ''hole_intersection'' of
                  Inl err \<Rightarrow> Inl err
                | Inr hole_method \<Rightarrow>
                    (case call_with_path pa self hole_method path of
                       Inl err \<Rightarrow> Inl err
                     | Inr hole_entries \<Rightarrow> Inr (exterior_entries @ hole_entries)))))"

section \<open>Path queries of PrismaticShape\<close>

text \<open>
  \<^verbatim>\<open>PrismaticShape.is_path_inside\<close>: the assertion \<^verbatim>\<open>path.has_z\<close>, then the lateral
  test and \<^verbatim>\<open>numpy.all(z > self._zt) and numpy.all(z < self._z0)\<close>.
\<close>

definition prism_is_path_inside ::
  "path_ops \<Rightarrow> prismatic_shape \<Rightarrow> linestring \<Rightarrow> pyerr + bool" where
  "prism_is_path_inside pa self path =
     (case path of
        LineString2D cs \<Rightarrow> Inl AssertionError
      | LineString3D ps \<Rightarrow>
          (let is_inside = is_path_inside pa self path; z = map down ps
           in Inr (is_inside \<and> list_all (\<lambda>z. fgt z (zt self)) z
                   \<and> list_all (\<lambda>z. flt z (z0 self)) z)))"

text \<open>
  \<^verbatim>\<open>PrismaticShape._z_intersection\<close>. The comprehension
  \<^verbatim>\<open>for x,y,z in path.coords[1:]\<close> cannot unpack a coordinate without elevation. Then,
  for each piece \<open>s\<close> of the split path that is within the polygon or intersects it,
  with \<^verbatim>\<open>s_z = numpy.array(s)[:,2]\<close> (an empty piece has no such column):
  \<^verbatim>\<open>f_0 = (self._z0 - s_z[0]) / numpy.diff(s_z)\<close> for the bottom and the same with
  \<^verbatim>\<open>self._zt\<close> for the top. Both are arrays, with one element less than the piece has
  coordinates. \<^verbatim>\<open>s.interpolate(f_0, normalized=True)\<close> hands the array to a C function
  that takes a double: an array of one element converts, any other raises
  \<^verbatim>\<open>ctypes.ArgumentError\<close>. A crossing is added for each fraction that passes
  \<^verbatim>\<open>f > 0.0 and f < 1.0\<close> with its point within the polygon. The first exception ends
  the loop.
\<close>

fun unpack_fails :: "linestring \<Rightarrow> bool" where
  "unpack_fails (LineString2D cs) = (tl cs \<noteq> [])"
| "unpack_fails (LineString3D ps) = False"

text \<open>\<^verbatim>\<open>numpy.diff\<close> and the division of a number by it.\<close>

fun diff :: "fnum list \<Rightarrow> fnum list" where
  "diff (a # b # xs) = fsub b a # diff (b # xs)"
| "diff xs = []"

fun fractions :: "fnum \<Rightarrow> fnum list \<Rightarrow> fnum list" where
  "fractions z [] = []"
| "fractions z (s_z0 # s_z) = map (\<lambda>d. fdiv (fsub z s_z0) d) (diff (s_z0 # s_z))"

fun scalar_argument :: "fnum list \<Rightarrow> pyerr + fnum" where
  "scalar_argument [f] = Inr f"
| "scalar_argument fs = Inl ArgumentError"

definition piece_crossings ::
  "point_ops \<Rightarrow> path_ops \<Rightarrow> prismatic_shape \<Rightarrow> point list \<Rightarrow> pyerr + point list" where
  "piece_crossings po pa self s =
     (if \<not> (within_ls pa (LineString3D s) (shape self)
             \<or> intersects_ls pa (LineString3D s) (shape self)) then Inr []
      else if s = [] then Inl IndexError
      else
        (let s_z = map down s;
             f_0 = fractions (z0 self) s_z
         in case scalar_argument f_0 of
              Inl err \<Rightarrow> Inl err
            | Inr d_0 \<Rightarrow>
                (let bottom_intersection = interpolate pa (LineString3D s) d_0 True;
                     f_t = fractions (zt self) s_z
                 in case scalar_argument f_t of
                      Inl err \<Rightarrow> Inl err
                    | Inr d_t \<Rightarrow>
                        (let top_intersection = interpolate pa (LineString3D s) d_t True
                         in Inr ((if fgt d_0 (Fin 0) \<and> flt d_0 (Fin 1)
                                     \<and> within_pt po bottom_intersection (shape self)
                                  then [interpolate pa (LineString3D s) d_0 True] else [])
                               @ (if fgt d_t (Fin 0) \<and> flt d_t (Fin 1)
                                     \<and> within_pt po top_intersection (shape self)
                                  then [interpolate pa (LineString3D s) d_t True] else []))))))"

fun z_intersection_loop ::
  "point_ops \<Rightarrow> path_ops \<Rightarrow> prismatic_shape \<Rightarrow> point list \<Rightarrow> point list list
     \<Rightarrow> pyerr + point list" where
  "z_intersection_loop po pa self found [] = Inr found"
| "z_intersection_loop po pa self found (s # segments) =
     (case piece_crossings po pa self s of
        Inl err \<Rightarrow> Inl err
      | Inr crossings \<Rightarrow> z_intersection_loop po pa self (found @ crossings) segments)"

definition z_intersection ::
  "point_ops \<Rightarrow> path_ops \<Rightarrow> prismatic_shape \<Rightarrow> linestring \<Rightarrow> pyerr + point list" where
  "z_intersection po pa self path =
     (if unpack_fails path then Inl ValueError
      else (case split_at_vertices pa path of
              Inl err \<Rightarrow> Inl err
            | Inr segments \<Rightarrow> z_intersection_loop po pa self [] segments))"

text \<open>
  \<^verbatim>\<open>PrismaticShape._check_z_intersection\<close>: each candidate is projected on the path and
  the point of the path there is kept when
  \<^verbatim>\<open>(ip.z - self._epsilon) <= self._z0 and (ip.z + self._epsilon) >= self._zt\<close>. A point
  of a path without elevations has no \<^verbatim>\<open>z\<close>.
\<close>

fun check_z_loop ::
  "path_ops \<Rightarrow> prismatic_shape \<Rightarrow> linestring \<Rightarrow> point list \<Rightarrow> geom list \<Rightarrow> point list" where
  "check_z_loop pa self path kept [] = kept"
| "check_z_loop pa self path kept (i # flat_intersections) =
     (let ip = interpolate pa path (project pa path i) False
      in check_z_loop pa self path
           (if fle (fsub (down ip) (epsilon self)) (z0 self)
               \<and> fge (fadd (down ip) (epsilon self)) (zt self)
            then kept @ [ip] else kept)
           flat_intersections)"

definition check_z_intersection ::
  "path_ops \<Rightarrow> prismatic_shape \<Rightarrow> linestring \<Rightarrow> geom list \<Rightarrow> pyerr + point list" where
  "check_z_intersection pa self path flat_intersections =
     (if \<not> has_z path \<and> flat_intersections \<noteq> [] then Inl DimensionError
      else Inr (check_z_loop pa self path [] flat_intersections))"

text \<open>
  \<^verbatim>\<open>PrismaticShape.exterior_intersections\<close>: the inherited method first, then the
  crossings of the top and bottom planes, then the elevation check on all of them.
\<close>

definition prism_exterior_intersections ::
  "point_ops \<Rightarrow> path_ops \<Rightarrow> prismatic_shape \<Rightarrow> linestring \<Rightarrow> pyerr + point list" where
  "prism_exterior_intersections po pa self path =
     (case exterior_intersections pa self path of
        Inl err \<Rightarrow> Inl err
      | Inr flat_intersections \<Rightarrow>
          (case z_intersection po pa self path of
             Inl err \<Rightarrow> Inl err
           | Inr z_intersections \<Rightarrow>
               check_z_intersection pa self path
                 (flat_intersections @ map GPoint z_intersections)))"

text \<open>
  \<^verbatim>\<open>PrismaticShape.intersections\<close>, which names the two methods as they are defined.
\<close>

definition prism_intersections ::
  "point_ops \<Rightarrow> path_ops \<Rightarrow> prismatic_shape \<Rightarrow> linestring \<Rightarrow> pyerr + entry list" where
  "prism_intersections po pa self path =
     (case prism_exterior_intersections po pa self path of
        Inl err \<Rightarrow> Inl err
      | Inr exterior_points \<Rightarrow>
          (case hole_intersections pa self path of
             Inl err \<Rightarrow> Inl err
           | Inr tuples \<Rightarrow>
               Inr (map (\<lambda>p. Item (GPoint p)) exterior_points @ map Items tuples)))"

section \<open>Construction\<close>

text \<open>
  The values a definition hands to \<^verbatim>\<open>shapely.geometry.Polygon\<close> and to \<^verbatim>\<open>float\<close>:
  \<^verbatim>\<open>None\<close>, a float, an integer (a \<^verbatim>\<open>bool\<close> is one), a string, or the description of
  a shape.
\<close>

datatype pyval = PyNone | PyFloat fnum | PyInt int | PyStr string | PyShape polygon

text \<open>
  Two operations of the construction are outside the sources: the constructor
  \<^verbatim>\<open>shapely.geometry.Polygon\<close>, which raises on what it cannot make a polygon of, and the
  reading of a string by \<^verbatim>\<open>float\<close> (\<open>None\<close> for a string that is no number).
\<close>

record construction_ops =
  polygon_ctor :: "pyval \<Rightarrow> pyerr + polygon"
  parse_float :: "string \<Rightarrow> fnum option"

text \<open>
  \<^verbatim>\<open>float(x)\<close>: a float is itself; an integer converts unless it rounds to
  \<open>2 ^ 1024\<close> or beyond (\<^verbatim>\<open>OverflowError\<close>); a string is read or raises
  \<^verbatim>\<open>ValueError\<close>; \<^verbatim>\<open>None\<close> and a shape raise \<^verbatim>\<open>TypeError\<close>.
\<close>

definition float_of_int :: "int \<Rightarrow> pyerr + fnum" where
  "float_of_int i =
     (if \<bar>i\<bar> < 2 ^ 1024 - 2 ^ 970 then Inr (Fin (of_int i)) else Inl OverflowError)"

fun py_float :: "construction_ops \<Rightarrow> pyval \<Rightarrow> pyerr + fnum" where
  "py_float co (PyFloat x) = Inr x"
| "py_float co (PyInt i) = float_of_int i"
| "py_float co (PyStr s) =
     (case parse_float co s of None \<Rightarrow> Inl ValueError | Some x \<Rightarrow> Inr x)"
| "py_float co PyNone = Inl TypeError"
| "py_float co (PyShape p) = Inl TypeError"

text \<open>
  The definition dictionary, by its keys: an absent key is \<open>None\<close>, and reading it
  raises \<^verbatim>\<open>KeyError\<close>. The shape and the two elevations are kept as they come, since the
  construction converts them; the identifier and the tolerance are stored without a
  conversion and never raise. Without an \<^verbatim>\<open>id\<close> the shape takes the digest of a hash
  over the shape, a random number and the dictionary, which is a parameter here; without
  an \<^verbatim>\<open>epsilon\<close> it takes \<^verbatim>\<open>1.e-6\<close>.
\<close>

record shape_definition =
  def_shape :: "pyval option"
  def_id :: "string option"
  def_epsilon :: "fnum option"
  def_z0 :: "pyval option"
  def_zt :: "pyval option"

text \<open>
  \<^verbatim>\<open>ShapePrimitive.define_from_dictionary\<close>:
  \<^verbatim>\<open>self._shape = shapely.geometry.Polygon(definition['shape'])\<close>, then the identifier
  and the tolerance.
\<close>

definition define_from_dictionary ::
  "construction_ops \<Rightarrow> string \<Rightarrow> shape_definition \<Rightarrow> pyerr + shape_primitive" where
  "define_from_dictionary co digest d =
     (case def_shape d of
        None \<Rightarrow> Inl (KeyError ''shape'')
      | Some v \<Rightarrow>
          (case polygon_ctor co v of
             Inl err \<Rightarrow> Inl err
           | Inr s \<Rightarrow>
               Inr \<lparr>shape = s,
                    shape_id = (case def_id d of None \<Rightarrow> digest | Some i \<Rightarrow> i),
                    epsilon = (case def_epsilon d of
                                 None \<Rightarrow> Fin (1 / 1000000) | Some e \<Rightarrow> e)\<rparr>))"

text \<open>
  \<^verbatim>\<open>PrismaticShape.define_from_dictionary\<close>: the inherited definition, then
  \<^verbatim>\<open>self._z0 = float(definition['z0'])\<close> and \<^verbatim>\<open>self._zt = float(definition['zt'])\<close>.
  Nothing compares the two.
\<close>

definition prism_define_from_dictionary ::
  "construction_ops \<Rightarrow> string \<Rightarrow> shape_definition \<Rightarrow> pyerr + prismatic_shape" where
  "prism_define_from_dictionary co digest d =
     (case define_from_dictionary co digest d of
        Inl err \<Rightarrow> Inl err
      | Inr base \<Rightarrow>
          (case def_z0 d of
             None \<Rightarrow> Inl (KeyError ''z0'')
           | Some z0_value \<Rightarrow>
               (case py_float co z0_value of
                  Inl err \<Rightarrow> Inl err
                | Inr bottom_z \<Rightarrow>
                    (case def_zt d of
                       None \<Rightarrow> Inl (KeyError ''zt'')
                     | Some zt_value \<Rightarrow>
                         (case py_float co zt_value of
                            Inl err \<Rightarrow> Inl err
                          | Inr top_z \<Rightarrow>
                              Inr \<lparr>shape = shape base, shape_id = shape_id base,
                                   epsilon = epsilon base, z0 = bottom_z, zt = top_z\<rparr>)))))"

text \<open>
  \<^verbatim>\<open>PrismaticShape.__init__(shape, z0, zt, definition)\<close>: without a definition, one is
  built from the shape and the two elevations, \<^verbatim>\<open>numpy.inf\<close> for a missing \<^verbatim>\<open>z0\<close> and
  \<^verbatim>\<open>-numpy.inf\<close> for a missing \<^verbatim>\<open>zt\<close>.
\<close>

definition prism_init ::
  "construction_ops \<Rightarrow> string \<Rightarrow> pyval \<Rightarrow> pyval option \<Rightarrow> pyval option
     \<Rightarrow> shape_definition option \<Rightarrow> pyerr + prismatic_shape" where
  "prism_init co digest shp z0_arg zt_arg definition_arg =
     (case definition_arg of
        None \<Rightarrow>
          prism_define_from_dictionary co digest
            \<lparr>def_shape = Some shp, def_id = None, def_epsilon = None,
             def_z0 = Some (case z0_arg of None \<Rightarrow> PyFloat PInf | Some b \<Rightarrow> b),
             def_zt = Some (case zt_arg of None \<Rightarrow> PyFloat NInf | Some t \<Rightarrow> t)\<rparr>
      | Some d \<Rightarrow> prism_define_from_dictionary co digest d)"

text \<open>The flat shape over the polygon of a prism.\<close>

definition flat_of :: "prismatic_shape \<Rightarrow> shape_primitive" where
  "flat_of self = \<lparr>shape = shape self, shape_id = shape_id self, epsilon = epsilon self\<rparr>"

section \<open>A collaborator for rectangles\<close>

text \<open>
  The theorems are instantiated on the shapes of the specification's scenarios, whose
  rings are rectangles along the axes. For such rings the two operations on points are
  computed from the bounds of the ring: a point is within the polygon when it is strictly
  between the bounds of the exterior and not between (or on) the bounds of a hole; the
  vector to a ring goes to the nearest side from the inside, and to the nearest point of
  the rectangle from the outside.
\<close>

definition ring_bounds :: "ring \<Rightarrow> (real \<times> real) \<times> (real \<times> real)" where
  "ring_bounds r =
     ((foldr min (map fst r) (fst (hd r)), foldr max (map fst r) (fst (hd r))),
      (foldr min (map snd r) (snd (hd r)), foldr max (map snd r) (snd (hd r))))"

definition strictly_between :: "real \<times> real \<Rightarrow> real \<Rightarrow> bool" where
  "strictly_between b x = (fst b < x \<and> x < snd b)"

definition between :: "real \<times> real \<Rightarrow> real \<Rightarrow> bool" where
  "between b x = (fst b \<le> x \<and> x \<le> snd b)"

definition clamp :: "real \<times> real \<Rightarrow> real \<Rightarrow> real" where
  "clamp b x = min (snd b) (max (fst b) x)"

definition rect_within :: "point \<Rightarrow> polygon \<Rightarrow> bool" where
  "rect_within p poly =
     (case (north p, east p) of
        (Fin n, Fin e) \<Rightarrow>
          strictly_between (fst (ring_bounds (exterior poly))) n
          \<and> strictly_between (snd (ring_bounds (exterior poly))) e
          \<and> list_all (\<lambda>h. \<not> (between (fst (ring_bounds h)) n \<and> between (snd (ring_bounds h)) e))
               (interiors poly)
      | _ \<Rightarrow> False)"

definition shorter :: "real \<times> real \<Rightarrow> real \<times> real \<Rightarrow> real \<times> real" where
  "shorter c b = (if \<bar>fst c\<bar> + \<bar>snd c\<bar> < \<bar>fst b\<bar> + \<bar>snd b\<bar> then c else b)"

definition rect_offset :: "(real \<times> real) \<times> (real \<times> real) \<Rightarrow> real \<Rightarrow> real \<Rightarrow> real \<times> real" where
  "rect_offset b n e =
     (if strictly_between (fst b) n \<and> strictly_between (snd b) e
      then shorter (0, snd (snd b) - e) (shorter (0, fst (snd b) - e)
             (shorter (snd (fst b) - n, 0) (fst (fst b) - n, 0)))
      else (clamp (fst b) n - n, clamp (snd b) e - e))"

definition rect_point_line_distance :: "point \<Rightarrow> ring \<Rightarrow> vec" where
  "rect_point_line_distance p r =
     (case (north p, east p) of
        (Fin n, Fin e) \<Rightarrow>
          \<lparr>vn = Fin (fst (rect_offset (ring_bounds r) n e)),
           ve = Fin (snd (rect_offset (ring_bounds r) n e)), vd = Fin 0\<rparr>
      | _ \<Rightarrow> \<lparr>vn = NaN, ve = NaN, vd = NaN\<rparr>)"

definition rect_ops :: point_ops where
  "rect_ops = \<lparr>within_pt = rect_within, point_line_distance = rect_point_line_distance\<rparr>"

text \<open>
  For the construction of these shapes: a constructor that makes the empty polygon of
  \<^verbatim>\<open>None\<close>, a polygon of a description with at least three exterior coordinates, and
  raises on anything else; and a reader of strings that knows the unsigned decimal
  integers and \<^verbatim>\<open>inf\<close>, \<^verbatim>\<open>-inf\<close> and \<^verbatim>\<open>nan\<close> (Python reads more forms, none of which
  occurs below).
\<close>

fun ring_ctor :: "pyval \<Rightarrow> pyerr + polygon" where
  "ring_ctor PyNone = Inr \<lparr>exterior = [], interiors = []\<rparr>"
| "ring_ctor (PyShape p) = (if 3 \<le> length (exterior p) then Inr p else Inl ValueError)"
| "ring_ctor v = Inl TypeError"

definition read_number :: "string \<Rightarrow> fnum option" where
  "read_number s =
     (if s = ''inf'' then Some PInf
      else if s = ''-inf'' then Some NInf
      else if s = ''nan'' then Some NaN
      else if s \<noteq> [] \<and> list_all (\<lambda>c. c \<in> set ''0123456789'') s
      then Some (Fin (real (foldl (\<lambda>n c. 10 * n + (of_char c - 48)) 0 s)))
      else None)"

definition rect_ctor :: construction_ops where
  "rect_ctor = \<lparr>polygon_ctor = ring_ctor, parse_float = read_number\<rparr>"

text \<open>
  The square of the scenarios, the same square with a square hole, and the prism between
  the elevations \<open>-5\<close> and \<open>5\<close> over each of them.
\<close>

definition square :: polygon where
  "square = \<lparr>exterior = [(0, 0), (0, 10), (10, 10), (10, 0)], interiors = []\<rparr>"

definition holed_square :: polygon where
  "holed_square = \<lparr>exterior = [(0, 0), (0, 10), (10, 10), (10, 0)],
     interiors = [[(2, 2), (2, 4), (4, 4), (4, 2)]]\<rparr>"

definition flat_on :: "polygon \<Rightarrow> shape_primitive" where
  "flat_on poly = \<lparr>shape = poly, shape_id = ''obstacle'', epsilon = Fin (1 / 1000000)\<rparr>"

definition prism_on :: "polygon \<Rightarrow> fnum \<Rightarrow> fnum \<Rightarrow> prismatic_shape" where
  "prism_on poly z_top z_bottom =
     \<lparr>shape = poly, shape_id = ''obstacle'', epsilon = Fin (1 / 1000000),
      z0 = z_bottom, zt = z_top\<rparr>"

section \<open>Properties\<close>

subsection \<open>Numbers and vectors\<close>

lemma flt_irrefl: "\<not> flt a a"
  by (cases a) simp_all

lemma py_min_least:
  "a \<noteq> NaN \<Longrightarrow> b \<noteq> NaN \<Longrightarrow> fle (py_min a b) a \<and> fle (py_min a b) b"
  by (cases a; cases b) (simp_all add: py_min_def)

lemma abs_le_sqrt3: "\<bar>x\<bar> \<le> sqrt (a\<^sup>2 + b\<^sup>2 + x\<^sup>2)"
proof -
  have "sqrt (x\<^sup>2) \<le> sqrt (a\<^sup>2 + b\<^sup>2 + x\<^sup>2)"
    by (rule real_sqrt_le_mono) simp
  then show ?thesis by simp
qed

text \<open>A vector is never shorter than the vertical vector with the same down component.\<close>

lemma norm_vertical_le:
  "\<not> flt (norm_vec (v\<lparr>vd := d\<rparr>)) (norm_vec (zeros\<lparr>vd := d\<rparr>))"
  by (cases d; cases "vn v"; cases "ve v")
     (simp_all add: norm_vec_def zeros_def is_inf_def abs_le_sqrt3 not_less)

text \<open>
  With the top not below the bottom, the clipped elevation of a finite \<open>c\<close> is the top
  above the prism, the bottom below it, and \<open>c\<close> itself in between.
\<close>

lemma clip_dz:
  assumes "fle t b"
  shows "fsub (clip (Fin c) t b) (Fin c) =
     (if flt (Fin c) t then fsub t (Fin c) else if flt b (Fin c) then fsub b (Fin c) else Fin 0)"
  using assms by (cases t; cases b) (auto simp: clip_def fminimum_def fmaximum_def fsub_def)

lemma dz_unbounded: "fsub (clip (Fin d) NInf PInf) (Fin d) = Fin 0"
  by (simp add: clip_def fminimum_def fmaximum_def fsub_def)

lemma z_difference_idem: "z_difference self p (z_difference self p v) = z_difference self p v"
  by (simp add: z_difference_def)

lemma z_difference_components:
  "vn (z_difference self p v) = vn v" "ve (z_difference self p v) = ve v"
  "vd (z_difference self p v) = fsub (clip (down p) (zt self) (z0 self)) (down p)"
  by (simp_all add: z_difference_def)

lemma body_norm: "norm_vec (nearest_boundary_body e h) = py_min (norm_vec e) (norm_vec h)"
  by (simp add: nearest_boundary_body_def py_min_def)

lemma body_tie: "norm_vec h = norm_vec e \<Longrightarrow> nearest_boundary_body e h = e"
  by (simp add: nearest_boundary_body_def flt_irrefl)

text \<open>
  The second \<^verbatim>\<open>_z_difference\<close> of \<^verbatim>\<open>PrismaticShape.nearest_boundary\<close> changes nothing:
  both candidates carry the down component already.
\<close>

lemma prism_nearest_boundary_eq:
  "prism_nearest_boundary po self p =
     nearest_boundary_body (prism_nearest_exterior po self p) (prism_nearest_hole po self p)"
  by (simp add: prism_nearest_boundary_def nearest_boundary_body_def prism_nearest_exterior_def
      prism_nearest_hole_def z_difference_idem Let_def)

lemmas rect_defs = rect_ops_def rect_within_def rect_point_line_distance_def rect_offset_def
  ring_bounds_def strictly_between_def between_def clamp_def shorter_def
  square_def holed_square_def flat_on_def prism_on_def pt_def

lemmas rect_eval = rect_defs nearest_boundary_def nearest_boundary_body_def nearest_exterior_def
  nearest_hole_def norm_vec_def is_inf_def inf_vec_def zeros_def

subsection \<open>Point containment\<close>


text \<open>
  The scenarios of the specification on the square: the point \<open>(5, 5, 0)\<close> is inside the
  prism between \<open>-5\<close> and \<open>5\<close>, the point \<open>(5, 5, 6)\<close> is not, and the point
  \<open>(3, 3, 0)\<close> in the hole is not inside the holed square.
\<close>

lemma scenario_a:
  "prism_is_point_inside rect_ops (prism_on square (Fin (- 5)) (Fin 5)) (pt 5 5 0)"
  by (simp add: rect_defs prism_is_point_inside_def is_point_inside_def fgt_def)

lemma scenario_b:
  "\<not> prism_is_point_inside rect_ops (prism_on square (Fin (- 5)) (Fin 5)) (pt 5 5 6)"
  by (simp add: rect_defs prism_is_point_inside_def is_point_inside_def fgt_def)

lemma scenario_e:
  "\<not> prism_is_point_inside rect_ops (prism_on holed_square (Fin (- 5)) (Fin 5)) (pt 3 3 0)"
  by (simp add: rect_defs prism_is_point_inside_def is_point_inside_def fgt_def)

subsection \<open>Nearest boundary\<close>

text \<open>
  C7. \<open>nearest_boundary\<close> returns the hole vector when its norm is strictly smaller than
  the exterior vector's and the exterior vector otherwise, so on equal norms the exterior
  vector; the norm of the result is the minimum of the two norms (Python's \<^verbatim>\<open>min\<close>, which
  is below both when neither is not-a-number). Without holes \<open>nearest_hole\<close> is the
  infinite vector, of infinite norm. The same selection holds for a prismatic shape with
  its own two vectors, whose hole vector without holes has an infinite norm too.
\<close>

theorem nearest_boundary_smaller:
  "nearest_boundary po self p =
     (if flt (norm_vec (nearest_hole po self p)) (norm_vec (nearest_exterior po self p))
      then nearest_hole po self p else nearest_exterior po self p)
   \<and> (norm_vec (nearest_hole po self p) = norm_vec (nearest_exterior po self p)
        \<longrightarrow> nearest_boundary po self p = nearest_exterior po self p)
   \<and> norm_vec (nearest_boundary po self p) =
        py_min (norm_vec (nearest_exterior po self p)) (norm_vec (nearest_hole po self p))
   \<and> (norm_vec (nearest_exterior po self p) \<noteq> NaN \<and> norm_vec (nearest_hole po self p) \<noteq> NaN
        \<longrightarrow> fle (norm_vec (nearest_boundary po self p)) (norm_vec (nearest_exterior po self p))
          \<and> fle (norm_vec (nearest_boundary po self p)) (norm_vec (nearest_hole po self p)))
   \<and> nearest_hole po (self\<lparr>shape := (shape self)\<lparr>interiors := []\<rparr>\<rparr>) p = inf_vec
   \<and> norm_vec inf_vec = PInf
   \<and> prism_nearest_boundary po prism p =
     (if flt (norm_vec (prism_nearest_hole po prism p)) (norm_vec (prism_nearest_exterior po prism p))
      then prism_nearest_hole po prism p else prism_nearest_exterior po prism p)
   \<and> norm_vec (prism_nearest_boundary po prism p) =
        py_min (norm_vec (prism_nearest_exterior po prism p)) (norm_vec (prism_nearest_hole po prism p))
   \<and> (interiors (shape prism) = [] \<and> vd (prism_nearest_hole po prism p) \<noteq> NaN
        \<longrightarrow> norm_vec (prism_nearest_hole po prism p) = PInf)"
proof -
  have flat: "nearest_boundary po self p =
      nearest_boundary_body (nearest_exterior po self p) (nearest_hole po self p)"
    by (simp add: nearest_boundary_def)
  have least: "norm_vec (nearest_exterior po self p) \<noteq> NaN \<and> norm_vec (nearest_hole po self p) \<noteq> NaN
        \<longrightarrow> fle (norm_vec (nearest_boundary po self p)) (norm_vec (nearest_exterior po self p))
          \<and> fle (norm_vec (nearest_boundary po self p)) (norm_vec (nearest_hole po self p))"
    using py_min_least by (simp add: flat body_norm)
  have none: "nearest_hole po (self\<lparr>shape := (shape self)\<lparr>interiors := []\<rparr>\<rparr>) p = inf_vec"
    by (simp add: nearest_hole_def)
  have inf: "norm_vec inf_vec = PInf"
    by (simp add: norm_vec_def inf_vec_def is_inf_def)
  have prism_none: "interiors (shape prism) = [] \<and> vd (prism_nearest_hole po prism p) \<noteq> NaN
        \<longrightarrow> norm_vec (prism_nearest_hole po prism p) = PInf"
    by (simp add: prism_nearest_hole_def nearest_hole_def z_difference_def norm_vec_def
        inf_vec_def is_inf_def)
  show ?thesis
    using least none inf prism_none
    by (simp add: flat prism_nearest_boundary_eq body_norm body_tie)
      (simp add: nearest_boundary_body_def)
qed

text \<open>
  On the holed square, the point \<open>(1, 3, 0)\<close> is at distance 1 from the exterior and from
  the hole: the exterior vector is returned. Over the square without a hole the hole
  vector of a prism has an infinite norm.
\<close>

theorem nearest_boundary_smaller_witness:
  "norm_vec (nearest_hole rect_ops (flat_on holed_square) (pt 1 3 0)) =
     norm_vec (nearest_exterior rect_ops (flat_on holed_square) (pt 1 3 0))
   \<and> norm_vec (nearest_exterior rect_ops (flat_on holed_square) (pt 1 3 0)) \<noteq> NaN
   \<and> norm_vec (nearest_hole rect_ops (flat_on holed_square) (pt 1 3 0)) \<noteq> NaN
   \<and> nearest_hole rect_ops (flat_on holed_square) (pt 1 3 0) = \<lparr>vn = Fin 1, ve = Fin 0, vd = Fin 0\<rparr>
   \<and> nearest_boundary rect_ops (flat_on holed_square) (pt 1 3 0)
       = \<lparr>vn = Fin (- 1), ve = Fin 0, vd = Fin 0\<rparr>
   \<and> fle (norm_vec (nearest_boundary rect_ops (flat_on holed_square) (pt 1 3 0))) (Fin 1)
   \<and> interiors (shape (prism_on square (Fin (- 5)) (Fin 5))) = []
   \<and> vd (prism_nearest_hole rect_ops (prism_on square (Fin (- 5)) (Fin 5)) (pt 1 3 0)) \<noteq> NaN
   \<and> norm_vec (prism_nearest_hole rect_ops (prism_on square (Fin (- 5)) (Fin 5)) (pt 1 3 0)) = PInf"
  using nearest_boundary_smaller [where po = rect_ops and self = "flat_on holed_square"
      and p = "pt 1 3 0" and prism = "prism_on square (Fin (- 5)) (Fin 5)"]
  by (simp add: rect_eval prism_nearest_hole_def z_difference_def clip_def fminimum_def
      fmaximum_def fsub_def)

text \<open>
  C3. For a point laterally inside the polygon, the vectors of \<open>prism_nearest_exterior\<close>
  and of \<open>prism_nearest_boundary\<close> have zero north and east components. The down component
  of all three vectors is \<open>clip z zt z0 - z\<close>; with the top not below the bottom and a
  finite \<open>z\<close> that is zero between the two planes, and the signed distance to the top
  above it and to the bottom below it. The north and east components of
  \<open>prism_nearest_hole\<close> are those of the flat \<open>nearest_hole\<close>, inside or not.
\<close>

theorem prism_nearest_components:
  "(within_pt po p (shape self) \<longrightarrow>
      vn (prism_nearest_exterior po self p) = Fin 0 \<and> ve (prism_nearest_exterior po self p) = Fin 0
      \<and> vn (prism_nearest_boundary po self p) = Fin 0 \<and> ve (prism_nearest_boundary po self p) = Fin 0)
   \<and> vd (prism_nearest_exterior po self p) = fsub (clip (down p) (zt self) (z0 self)) (down p)
   \<and> vd (prism_nearest_hole po self p) = fsub (clip (down p) (zt self) (z0 self)) (down p)
   \<and> vd (prism_nearest_boundary po self p) = fsub (clip (down p) (zt self) (z0 self)) (down p)
   \<and> vn (prism_nearest_hole po self p) = vn (nearest_hole po self p)
   \<and> ve (prism_nearest_hole po self p) = ve (nearest_hole po self p)
   \<and> (fle (zt self) (z0 self) \<and> down p = Fin c \<longrightarrow>
        fsub (clip (down p) (zt self) (z0 self)) (down p) =
          (if flt (down p) (zt self) then fsub (zt self) (down p)
           else if flt (z0 self) (down p) then fsub (z0 self) (down p) else Fin 0))"
proof -
  have ext: "within_pt po p (shape self) \<longrightarrow>
      prism_nearest_exterior po self p = z_difference self p zeros"
    by (simp add: prism_nearest_exterior_def)
  have bnd: "within_pt po p (shape self) \<longrightarrow>
      prism_nearest_boundary po self p = z_difference self p zeros"
    using norm_vertical_le [where v = "nearest_hole po self p"
        and d = "fsub (clip (down p) (zt self) (z0 self)) (down p)"]
    by (simp add: prism_nearest_boundary_eq prism_nearest_exterior_def prism_nearest_hole_def
        nearest_boundary_body_def z_difference_def)
  have zero: "vn (z_difference self p zeros) = Fin 0 \<and> ve (z_difference self p zeros) = Fin 0"
    by (simp add: z_difference_def zeros_def)
  have down: "vd (prism_nearest_boundary po self p) = fsub (clip (down p) (zt self) (z0 self)) (down p)"
    by (simp add: prism_nearest_boundary_def z_difference_components)
  have dz: "fle (zt self) (z0 self) \<and> down p = Fin c \<longrightarrow>
        fsub (clip (down p) (zt self) (z0 self)) (down p) =
          (if flt (down p) (zt self) then fsub (zt self) (down p)
           else if flt (z0 self) (down p) then fsub (z0 self) (down p) else Fin 0)"
    using clip_dz [of "zt self" "z0 self" c] by auto
  show ?thesis
    using ext bnd zero down dz
    by (simp add: prism_nearest_exterior_def prism_nearest_hole_def z_difference_components)
qed

text \<open>
  Two units below the prism between \<open>-5\<close> and \<open>5\<close> over the holed square, at the lateral
  position \<open>(5, 5)\<close> inside the polygon: the vector goes straight up by 2.
\<close>

theorem prism_nearest_components_witness:
  "within_pt rect_ops (pt 5 5 7) (shape (prism_on holed_square (Fin (- 5)) (Fin 5)))
   \<and> fle (zt (prism_on holed_square (Fin (- 5)) (Fin 5))) (z0 (prism_on holed_square (Fin (- 5)) (Fin 5)))
   \<and> down (pt 5 5 7) = Fin 7
   \<and> prism_nearest_exterior rect_ops (prism_on holed_square (Fin (- 5)) (Fin 5)) (pt 5 5 7)
       = \<lparr>vn = Fin 0, ve = Fin 0, vd = Fin (- 2)\<rparr>
   \<and> vn (prism_nearest_boundary rect_ops (prism_on holed_square (Fin (- 5)) (Fin 5)) (pt 5 5 7)) = Fin 0
   \<and> ve (prism_nearest_boundary rect_ops (prism_on holed_square (Fin (- 5)) (Fin 5)) (pt 5 5 7)) = Fin 0
   \<and> vd (prism_nearest_boundary rect_ops (prism_on holed_square (Fin (- 5)) (Fin 5)) (pt 5 5 7)) = Fin (- 2)"
  using prism_nearest_components [of rect_ops "pt 5 5 7" "prism_on holed_square (Fin (- 5)) (Fin 5)" 7]
  by (simp add: rect_defs prism_nearest_exterior_def z_difference_def zeros_def clip_def
      fminimum_def fmaximum_def fsub_def)

text \<open>
  The hole vector is not zeroed. Over the square without a hole, the point \<open>(5, 5, 0)\<close>
  is laterally inside and its hole vector has infinite north and east components; over
  the holed square, the point \<open>(3, 2.5, 0)\<close> is laterally inside the hole and its hole
  vector goes half a unit west, to the nearest edge of the hole.
\<close>

theorem prism_nearest_hole_lateral_counterexample:
  "within_pt rect_ops (pt 5 5 0) (shape (prism_on square (Fin (- 5)) (Fin 5)))
   \<and> prism_nearest_hole rect_ops (prism_on square (Fin (- 5)) (Fin 5)) (pt 5 5 0)
       = \<lparr>vn = PInf, ve = PInf, vd = Fin 0\<rparr>
   \<and> within_pt rect_ops (pt 3 (5 / 2) 0) \<lparr>exterior = hd (interiors holed_square), interiors = []\<rparr>
   \<and> prism_nearest_hole rect_ops (prism_on holed_square (Fin (- 5)) (Fin 5)) (pt 3 (5 / 2) 0)
       = \<lparr>vn = Fin 0, ve = Fin (- (1 / 2)), vd = Fin 0\<rparr>"
  by (simp add: rect_eval prism_nearest_hole_def z_difference_def clip_def
      fminimum_def fmaximum_def fsub_def)

subsection \<open>Intersections\<close>

lemma load_intersections:
  "load_name [(''self'', Object), (''path'', Line path), (''intersection'', Geometry g)]
     ''intersections'' = Inl (NameError ''intersections'')"
  by (simp add: load_name_def module_names_def)

lemma exterior_intersections_NameError:
  "exterior_intersections pa self path = Inl (NameError ''intersections'')"
  by (simp add: exterior_intersections_def load_intersections)

lemma prism_exterior_intersections_NameError:
  "prism_exterior_intersections po pa self path = Inl (NameError ''intersections'')"
  by (simp add: prism_exterior_intersections_def exterior_intersections_NameError)

lemma getattr_exterior_intersection:
  "getattr ''exterior_intersection'' = Inl (AttributeError ''exterior_intersection'')"
  by (simp add: getattr_def shape_primitive_attributes_def)

text \<open>
  What the elevation check keeps: the points of the path at the candidates, those whose
  elevation is within \<open>epsilon\<close> of the interval from the top to the bottom, in order.
\<close>

lemma check_z_loop_filter:
  "check_z_loop pa self path kept cands =
     kept @ filter (\<lambda>ip. fle (fsub (down ip) (epsilon self)) (z0 self)
                        \<and> fge (fadd (down ip) (epsilon self)) (zt self))
              (map (\<lambda>i. interpolate pa path (project pa path i) False) cands)"
  by (induction cands arbitrary: kept) (simp_all add: Let_def)

text \<open>
  C4. \<open>exterior_intersections\<close> of a flat shape returns no tuple: whatever the path and
  whatever the collaborator answers, the call raises \<^verbatim>\<open>NameError\<close> on the name
  \<^verbatim>\<open>intersections\<close>. The normalisation the claim describes is the one of
  \<open>hole_intersections\<close>, hole by hole: a point becomes a tuple of one, a collection the
  tuple of its parts, a line the tuple of its first vertex; an empty line raises
  \<^verbatim>\<open>IndexError\<close>.
\<close>

theorem exterior_intersections_raises:
  "exterior_intersections pa self path = Inl (NameError ''intersections'')
   \<and> hole_entry (GPoint p) = Inr [GPoint p]
   \<and> hole_entry (GMulti gs) = Inr gs
   \<and> hole_entry (GLineString (c # cs)) = Inr [GPoint c]
   \<and> hole_entry (GLineString []) = Inl IndexError"
  by (simp add: exterior_intersections_NameError)

text \<open>
  C2. \<open>prism_exterior_intersections\<close> starts with the inherited method, so it raises the
  same \<^verbatim>\<open>NameError\<close> for every path and returns neither the lateral-wall intersections
  nor the plane crossings.
\<close>

theorem prism_exterior_intersections_raises:
  "prism_exterior_intersections po pa self path = Inl (NameError ''intersections'')"
  by (rule prism_exterior_intersections_NameError)

text \<open>
  C5. \<open>intersections\<close> of a flat shape raises \<^verbatim>\<open>AttributeError\<close>: the class has no
  attribute \<^verbatim>\<open>exterior_intersection\<close>. \<open>prism_intersections\<close> names the methods as they
  are defined and raises the \<^verbatim>\<open>NameError\<close> of the exterior intersections. Neither returns
  a tuple.
\<close>

theorem intersections_raise:
  "intersections pa self path = Inl (AttributeError ''exterior_intersection'')
   \<and> prism_intersections po pa prism path = Inl (NameError ''intersections'')"
  by (simp add: intersections_def getattr_exterior_intersection prism_intersections_def
      prism_exterior_intersections_NameError)

subsection \<open>Plane crossings\<close>

lemma constant_fraction:
  "fdiv (fsub z c) (fsub c c) = NaN
   \<or> fdiv (fsub z c) (fsub c c) = PInf
   \<or> fdiv (fsub z c) (fsub c c) = NInf"
  by (cases c; cases z) (simp_all add: fsub_def)

lemma nonfinite_rejected:
  "f = NaN \<or> f = PInf \<or> f = NInf \<Longrightarrow> \<not> (fgt f (Fin 0) \<and> flt f (Fin 1))"
  by (auto simp: fgt_def)

lemma constant_fraction_rejected:
  "\<not> (fgt (fdiv (fsub z c) (fsub c c)) (Fin 0) \<and> flt (fdiv (fsub z c) (fsub c c)) (Fin 1))"
  by (rule nonfinite_rejected [OF constant_fraction])

text \<open>A piece of two coordinates with one elevation adds no crossing and raises nothing.\<close>

lemma piece_crossings_constant:
  "piece_crossings po pa self [a\<lparr>down := c\<rparr>, b\<lparr>down := c\<rparr>] = Inr []"
proof -
  have bottom_rejected:
    "\<not> (fgt (fdiv (fsub (z0 self) c) (fsub c c)) (Fin 0)
         \<and> flt (fdiv (fsub (z0 self) c) (fsub c c)) (Fin 1))"
    by (rule constant_fraction_rejected)
  have top_rejected:
    "\<not> (fgt (fdiv (fsub (zt self) c) (fsub c c)) (Fin 0)
         \<and> flt (fdiv (fsub (zt self) c) (fsub c c)) (Fin 1))"
    by (rule constant_fraction_rejected)
  show ?thesis
    unfolding piece_crossings_def Let_def using bottom_rejected top_rejected by auto
qed

text \<open>
  A piece of three coordinates that meets the polygon raises, whatever its elevations:
  the array of fractions has two elements.
\<close>

lemma piece_crossings_three:
  "piece_crossings po pa self [a, b, d] =
     (if within_ls pa (LineString3D [a, b, d]) (shape self)
         \<or> intersects_ls pa (LineString3D [a, b, d]) (shape self)
      then Inl ArgumentError else Inr [])"
  by (simp add: piece_crossings_def Let_def)

text \<open>
  C10. On a piece whose two coordinates have the same elevation \<open>c\<close>, the divisor
  \<open>c - c\<close> is zero (for a finite \<open>c\<close>) and the division still has a value: each of the
  two fractions is infinite or not-a-number and fails \<open>f > 0\<close> and \<open>f < 1\<close>, so the piece
  adds no crossing, raises nothing, and the loop goes on. The call is not total on every
  piece of constant elevation, though: a piece of three coordinates, which the split
  returns at a repeated vertex, raises \<^verbatim>\<open>ArgumentError\<close> as soon as it meets the polygon.
  So does \<open>z_intersection\<close> on the path of constant elevation \<open>a, b, b, d\<close> when the
  split answers the pieces \<open>a, b\<close> and \<open>b, b, d\<close>.
\<close>

theorem constant_elevation_pieces:
  "fsub (Fin r) (Fin r) = Fin 0
   \<and> fractions z [c, c] = [fdiv (fsub z c) (fsub c c)]
   \<and> (fdiv (fsub z c) (fsub c c) = NaN
      \<or> fdiv (fsub z c) (fsub c c) = PInf
      \<or> fdiv (fsub z c) (fsub c c) = NInf)
   \<and> \<not> (fgt (fdiv (fsub z c) (fsub c c)) (Fin 0) \<and> flt (fdiv (fsub z c) (fsub c c)) (Fin 1))
   \<and> piece_crossings po pa self [a\<lparr>down := c\<rparr>, b\<lparr>down := c\<rparr>] = Inr []
   \<and> z_intersection_loop po pa self found ([a\<lparr>down := c\<rparr>, b\<lparr>down := c\<rparr>] # segments) =
       z_intersection_loop po pa self found segments
   \<and> piece_crossings po pa self [a\<lparr>down := c\<rparr>, b\<lparr>down := c\<rparr>, d\<lparr>down := c\<rparr>] =
       (if within_ls pa (LineString3D [a\<lparr>down := c\<rparr>, b\<lparr>down := c\<rparr>, d\<lparr>down := c\<rparr>]) (shape self)
           \<or> intersects_ls pa (LineString3D [a\<lparr>down := c\<rparr>, b\<lparr>down := c\<rparr>, d\<lparr>down := c\<rparr>])
                (shape self)
        then Inl ArgumentError else Inr [])
   \<and> z_intersection po
         (pa\<lparr>split_at_vertices := \<lambda>path.
              Inr [[a\<lparr>down := c\<rparr>, b\<lparr>down := c\<rparr>],
                   [b\<lparr>down := c\<rparr>, b\<lparr>down := c\<rparr>, d\<lparr>down := c\<rparr>]]\<rparr>)
         self
         (LineString3D [a\<lparr>down := c\<rparr>, b\<lparr>down := c\<rparr>, b\<lparr>down := c\<rparr>, d\<lparr>down := c\<rparr>]) =
       (if within_ls pa (LineString3D [b\<lparr>down := c\<rparr>, b\<lparr>down := c\<rparr>, d\<lparr>down := c\<rparr>]) (shape self)
           \<or> intersects_ls pa (LineString3D [b\<lparr>down := c\<rparr>, b\<lparr>down := c\<rparr>, d\<lparr>down := c\<rparr>])
                (shape self)
        then Inl ArgumentError else Inr [])"
proof -
  have zero: "fsub (Fin r) (Fin r) = Fin 0"
    by (simp add: fsub_def)
  have one: "fractions z [c, c] = [fdiv (fsub z c) (fsub c c)]"
    by simp
  have skip: "z_intersection_loop po pa self found ([a\<lparr>down := c\<rparr>, b\<lparr>down := c\<rparr>] # segments) =
       z_intersection_loop po pa self found segments"
    by (simp add: piece_crossings_constant)
  have path: "z_intersection po
         (pa\<lparr>split_at_vertices := \<lambda>path.
              Inr [[a\<lparr>down := c\<rparr>, b\<lparr>down := c\<rparr>],
                   [b\<lparr>down := c\<rparr>, b\<lparr>down := c\<rparr>, d\<lparr>down := c\<rparr>]]\<rparr>)
         self
         (LineString3D [a\<lparr>down := c\<rparr>, b\<lparr>down := c\<rparr>, b\<lparr>down := c\<rparr>, d\<lparr>down := c\<rparr>]) =
       (if within_ls pa (LineString3D [b\<lparr>down := c\<rparr>, b\<lparr>down := c\<rparr>, d\<lparr>down := c\<rparr>]) (shape self)
           \<or> intersects_ls pa (LineString3D [b\<lparr>down := c\<rparr>, b\<lparr>down := c\<rparr>, d\<lparr>down := c\<rparr>])
                (shape self)
        then Inl ArgumentError else Inr [])"
    by (simp add: z_intersection_def piece_crossings_constant piece_crossings_three)
  show ?thesis
    using zero one constant_fraction [of z c] constant_fraction_rejected [of z c]
      piece_crossings_constant [where po = po and pa = pa and self = self
        and a = a and b = b and c = c] skip
      piece_crossings_three [where po = po and pa = pa and self = self
        and a = "a\<lparr>down := c\<rparr>" and b = "b\<lparr>down := c\<rparr>" and d = "d\<lparr>down := c\<rparr>"] path
    by blast
qed

subsection \<open>Construction\<close>

text \<open>
  C6. Construction does not compare the top with the bottom. When the constructor of the
  polygon accepts the shape and \<^verbatim>\<open>float\<close> converts \<open>z0\<close> and \<open>zt\<close>, the construction
  succeeds and stores the two converted elevations as given, whatever their order. A
  definition that is accepted is accepted with \<open>z0\<close> and \<open>zt\<close> exchanged as well, and
  gives the same shape with the two elevations exchanged. What a constructed shape stores
  is the \<^verbatim>\<open>float\<close> of the two values of the definition.
\<close>

theorem prism_construction_unchecked:
  "(def_shape d = Some v \<and> polygon_ctor co v = Inr s
      \<and> def_z0 d = Some z0_value \<and> py_float co z0_value = Inr b
      \<and> def_zt d = Some zt_value \<and> py_float co zt_value = Inr t \<longrightarrow>
      prism_define_from_dictionary co digest d =
        Inr \<lparr>shape = s, shape_id = (case def_id d of None \<Rightarrow> digest | Some i \<Rightarrow> i),
             epsilon = (case def_epsilon d of None \<Rightarrow> Fin (1 / 1000000) | Some e \<Rightarrow> e),
             z0 = b, zt = t\<rparr>)
   \<and> (prism_define_from_dictionary co digest d = Inr self \<longrightarrow>
        prism_define_from_dictionary co digest (d\<lparr>def_z0 := def_zt d, def_zt := def_z0 d\<rparr>) =
          Inr (self\<lparr>z0 := zt self, zt := z0 self\<rparr>))
   \<and> (prism_define_from_dictionary co digest d = Inr self \<longrightarrow>
        map_option (py_float co) (def_z0 d) = Some (Inr (z0 self))
        \<and> map_option (py_float co) (def_zt d) = Some (Inr (zt self)))"
  by (auto simp: prism_define_from_dictionary_def define_from_dictionary_def
      split: option.splits sum.splits)

text \<open>
  A definition with the top at 1 and the bottom at 0, given as a float and an integer, is
  accepted as it is, and so is the definition with the two exchanged.
\<close>

theorem prism_construction_unchecked_witness:
  "polygon_ctor rect_ctor (PyShape square) = Inr square
   \<and> py_float rect_ctor (PyInt 0) = Inr (Fin 0)
   \<and> py_float rect_ctor (PyFloat (Fin 1)) = Inr (Fin 1)
   \<and> prism_define_from_dictionary rect_ctor ''digest''
       \<lparr>def_shape = Some (PyShape square), def_id = Some ''tower'', def_epsilon = None,
        def_z0 = Some (PyInt 0), def_zt = Some (PyFloat (Fin 1))\<rparr> =
     Inr \<lparr>shape = square, shape_id = ''tower'', epsilon = Fin (1 / 1000000),
          z0 = Fin 0, zt = Fin 1\<rparr>
   \<and> prism_define_from_dictionary rect_ctor ''digest''
       \<lparr>def_shape = Some (PyShape square), def_id = Some ''tower'', def_epsilon = None,
        def_z0 = Some (PyFloat (Fin 1)), def_zt = Some (PyInt 0)\<rparr> =
     Inr \<lparr>shape = square, shape_id = ''tower'', epsilon = Fin (1 / 1000000),
          z0 = Fin 1, zt = Fin 0\<rparr>"
  using prism_construction_unchecked [where co = rect_ctor and digest = "''digest''"
      and d = "\<lparr>def_shape = Some (PyShape square), def_id = Some ''tower'', def_epsilon = None,
        def_z0 = Some (PyInt 0), def_zt = Some (PyFloat (Fin 1))\<rparr>"
      and v = "PyShape square" and s = square and z0_value = "PyInt 0" and b = "Fin 0"
      and zt_value = "PyFloat (Fin 1)" and t = "Fin 1"
      and self = "\<lparr>shape = square, shape_id = ''tower'', epsilon = Fin (1 / 1000000),
          z0 = Fin 0, zt = Fin 1\<rparr>"]
  by (simp add: rect_ctor_def square_def float_of_int_def)

text \<open>
  The construction with the top at 1, below the bottom at 0 in the down axis, returns a
  shape and no error.
\<close>

theorem top_above_bottom_counterexample:
  "prism_define_from_dictionary rect_ctor ''digest''
       \<lparr>def_shape = Some (PyShape square), def_id = Some ''tower'', def_epsilon = None,
        def_z0 = Some (PyFloat (Fin 0)), def_zt = Some (PyFloat (Fin 1))\<rparr> =
     Inr \<lparr>shape = square, shape_id = ''tower'', epsilon = Fin (1 / 1000000),
          z0 = Fin 0, zt = Fin 1\<rparr>
   \<and> \<not> fle (Fin 1) (Fin 0)"
  by (simp add: prism_define_from_dictionary_def define_from_dictionary_def rect_ctor_def
      square_def)

text \<open>
  The errors of \<^verbatim>\<open>float\<close> reach the caller: an integer beyond the floats, a string that
  is no number, and \<^verbatim>\<open>None\<close>.
\<close>

lemma py_float_errors:
  "py_float co (PyInt (10 ^ 400)) = Inl OverflowError"
  "py_float rect_ctor (PyStr ''abc'') = Inl ValueError"
  "py_float co PyNone = Inl TypeError"
  by (simp_all add: float_of_int_def rect_ctor_def read_number_def)

subsection \<open>The unbounded prism and the flat shape\<close>

lemma finite_elevations:
  "list_all (\<lambda>z. flt NInf z) (map down (map (\<lambda>(n, e, d). pt n e d) cs))"
  "list_all (\<lambda>z. flt z PInf) (map down (map (\<lambda>(n, e, d). pt n e d) cs))"
  by (induction cs) (auto simp: pt_def)

text \<open>
  C8. The constructor's defaults are the bottom at \<open>+inf\<close> and the top at \<open>-inf\<close>, over
  the polygon the shape makes. With
  them, a prismatic shape answers as the flat shape over the same polygon for
  \<open>is_point_inside\<close> at every finite point, for \<open>is_path_inside\<close> on every path with
  finite elevations, and for \<open>hole_intersections\<close>. Its hole vector is the flat one with
  the down component 0; its exterior vector is zero for a point laterally inside and the
  flat one with the down component 0 otherwise; its boundary vector is the smaller of
  these two.
\<close>

theorem unbounded_prism_vs_flat:
  "prism_init co digest shp None None None =
     (case polygon_ctor co shp of
        Inl err \<Rightarrow> Inl err
      | Inr poly \<Rightarrow>
          Inr \<lparr>shape = poly, shape_id = digest, epsilon = Fin (1 / 1000000),
               z0 = PInf, zt = NInf\<rparr>)
   \<and> prism_is_point_inside po (self\<lparr>z0 := PInf, zt := NInf\<rparr>) (pt n e d) =
       is_point_inside po (flat_of self) (pt n e d)
   \<and> prism_is_path_inside pa (self\<lparr>z0 := PInf, zt := NInf\<rparr>)
         (LineString3D (map (\<lambda>(n, e, d). pt n e d) cs)) =
       Inr (is_path_inside pa (flat_of self) (LineString3D (map (\<lambda>(n, e, d). pt n e d) cs)))
   \<and> hole_intersections pa (self\<lparr>z0 := PInf, zt := NInf\<rparr>) path =
       hole_intersections pa (flat_of self) path
   \<and> prism_nearest_hole po (self\<lparr>z0 := PInf, zt := NInf\<rparr>) (pt n e d) =
       (nearest_hole po (flat_of self) (pt n e d))\<lparr>vd := Fin 0\<rparr>
   \<and> prism_nearest_exterior po (self\<lparr>z0 := PInf, zt := NInf\<rparr>) (pt n e d) =
       (if is_point_inside po (flat_of self) (pt n e d) then zeros
        else (nearest_exterior po (flat_of self) (pt n e d))\<lparr>vd := Fin 0\<rparr>)
   \<and> prism_nearest_boundary po (self\<lparr>z0 := PInf, zt := NInf\<rparr>) (pt n e d) =
       nearest_boundary_body
         (prism_nearest_exterior po (self\<lparr>z0 := PInf, zt := NInf\<rparr>) (pt n e d))
         (prism_nearest_hole po (self\<lparr>z0 := PInf, zt := NInf\<rparr>) (pt n e d))"
proof -
  have init: "prism_init co digest shp None None None =
     (case polygon_ctor co shp of
        Inl err \<Rightarrow> Inl err
      | Inr poly \<Rightarrow>
          Inr \<lparr>shape = poly, shape_id = digest, epsilon = Fin (1 / 1000000),
               z0 = PInf, zt = NInf\<rparr>)"
    by (simp add: prism_init_def prism_define_from_dictionary_def define_from_dictionary_def
        split: sum.splits)
  have point: "prism_is_point_inside po (self\<lparr>z0 := PInf, zt := NInf\<rparr>) (pt n e d) =
       is_point_inside po (flat_of self) (pt n e d)"
    by (simp add: prism_is_point_inside_def is_point_inside_def flat_of_def fgt_def pt_def)
  have path: "prism_is_path_inside pa (self\<lparr>z0 := PInf, zt := NInf\<rparr>)
         (LineString3D (map (\<lambda>(n, e, d). pt n e d) cs)) =
       Inr (is_path_inside pa (flat_of self) (LineString3D (map (\<lambda>(n, e, d). pt n e d) cs)))"
    using finite_elevations [of cs]
    by (simp add: prism_is_path_inside_def is_path_inside_def flat_of_def fgt_def)
  have holes: "hole_intersections pa (self\<lparr>z0 := PInf, zt := NInf\<rparr>) path =
       hole_intersections pa (flat_of self) path"
    by (simp add: hole_intersections_def flat_of_def)
  have dz: "z_difference (self\<lparr>z0 := PInf, zt := NInf\<rparr>) (pt n e d) v = v\<lparr>vd := Fin 0\<rparr>" for v
    using dz_unbounded [of d] by (simp add: z_difference_def pt_def)
  have hole: "prism_nearest_hole po (self\<lparr>z0 := PInf, zt := NInf\<rparr>) (pt n e d) =
       (nearest_hole po (flat_of self) (pt n e d))\<lparr>vd := Fin 0\<rparr>"
    by (simp add: prism_nearest_hole_def dz nearest_hole_def flat_of_def)
  have ext: "prism_nearest_exterior po (self\<lparr>z0 := PInf, zt := NInf\<rparr>) (pt n e d) =
       (if is_point_inside po (flat_of self) (pt n e d) then zeros
        else (nearest_exterior po (flat_of self) (pt n e d))\<lparr>vd := Fin 0\<rparr>)"
    by (simp add: prism_nearest_exterior_def dz nearest_exterior_def is_point_inside_def
        flat_of_def zeros_def)
  have bnd: "prism_nearest_boundary po (self\<lparr>z0 := PInf, zt := NInf\<rparr>) (pt n e d) =
       nearest_boundary_body
         (prism_nearest_exterior po (self\<lparr>z0 := PInf, zt := NInf\<rparr>) (pt n e d))
         (prism_nearest_hole po (self\<lparr>z0 := PInf, zt := NInf\<rparr>) (pt n e d))"
    by (rule prism_nearest_boundary_eq)
  show ?thesis
    using init point path holes hole ext bnd by blast
qed

text \<open>
  Over the square, built with the defaults, at the point \<open>(5, 3, 0)\<close> inside it: the flat
  hole vector is infinite in all three components and the prismatic one has the down
  component 0; the flat exterior vector goes 3 units west to the nearest side and the
  prismatic one is zero.
\<close>

theorem unbounded_prism_differs_counterexample:
  "prism_init rect_ctor ''obstacle'' (PyShape square) None None None =
     Inr (prism_on square NInf PInf)
   \<and> nearest_hole rect_ops (flat_of (prism_on square NInf PInf)) (pt 5 3 0)
       = \<lparr>vn = PInf, ve = PInf, vd = PInf\<rparr>
   \<and> prism_nearest_hole rect_ops (prism_on square NInf PInf) (pt 5 3 0)
       = \<lparr>vn = PInf, ve = PInf, vd = Fin 0\<rparr>
   \<and> nearest_exterior rect_ops (flat_of (prism_on square NInf PInf)) (pt 5 3 0)
       = \<lparr>vn = Fin 0, ve = Fin (- 3), vd = Fin 0\<rparr>
   \<and> prism_nearest_exterior rect_ops (prism_on square NInf PInf) (pt 5 3 0)
       = \<lparr>vn = Fin 0, ve = Fin 0, vd = Fin 0\<rparr>"
  by (simp add: rect_eval prism_init_def prism_define_from_dictionary_def rect_ctor_def
      define_from_dictionary_def flat_of_def prism_nearest_hole_def prism_nearest_exterior_def
      z_difference_def clip_def fminimum_def fmaximum_def fsub_def)

end
